theory Spec2Isabelle
  imports Main
begin

unbundle bit_operations_syntax

section \<open>Python values\<close>

text \<open>
  A Python \<open>str\<close> is a sequence of Unicode code points, so \<open>len\<close>, \<open>strip\<close> and
  \<open>lower\<close> work on code points, not on bytes. A \<open>bytes\<close> value is a sequence of numbers
  below 256. String literals of the source are written \<open>ascii ''...''\<close>.
\<close>

type_synonym pystr = "nat list"
type_synonym bytes = "nat list"

definition ascii :: "string \<Rightarrow> pystr" where
  "ascii s = map of_char s"

text \<open>
  \<open>str.strip()\<close> without an argument removes leading and trailing white space, that is
  the code points for which \<open>str.isspace\<close> holds.
\<close>

definition is_space :: "nat \<Rightarrow> bool" where
  "is_space c \<longleftrightarrow>
     (9 \<le> c \<and> c \<le> 13) \<or> (28 \<le> c \<and> c \<le> 32) \<or> c = 133 \<or> c = 160 \<or> c = 5760 \<or>
     (8192 \<le> c \<and> c \<le> 8202) \<or> c = 8232 \<or> c = 8233 \<or> c = 8239 \<or> c = 8287 \<or> c = 12288"

definition strip :: "pystr \<Rightarrow> pystr" where
  "strip s = rev (dropWhile is_space (rev (dropWhile is_space s)))"

text \<open>
  \<open>str.lower()\<close>: an ASCII letter is mapped to its lower-case letter; the mapping of a
  code point beyond ASCII comes from the Unicode character database of the interpreter
  (it may yield several code points and, for the capital sigma, looks at the context),
  which is a parameter \<open>ucd\<close> here: it receives the whole string and the position.
\<close>

type_synonym ucd_lower = "pystr \<Rightarrow> nat \<Rightarrow> pystr"

definition ascii_lower :: "nat \<Rightarrow> nat" where
  "ascii_lower c = (if 65 \<le> c \<and> c \<le> 90 then c + 32 else c)"

fun lower_at :: "ucd_lower \<Rightarrow> pystr \<Rightarrow> nat \<Rightarrow> pystr \<Rightarrow> pystr" where
  "lower_at ucd s i [] = []"
| "lower_at ucd s i (c # cs) =
     (if c < 128 then [ascii_lower c] else ucd s i) @ lower_at ucd s (Suc i) cs"

definition lower :: "ucd_lower \<Rightarrow> pystr \<Rightarrow> pystr" where
  "lower ucd s = lower_at ucd s 0 s"

text \<open>\<open>str(n)\<close> and the f-string formatting of an integer: decimal digits, with a sign.\<close>

function dec_digits :: "nat \<Rightarrow> pystr" where
  "dec_digits n = (if n < 10 then [48 + n] else dec_digits (n div 10) @ [48 + n mod 10])"
  by pat_completeness auto
termination
  by (relation "measure (\<lambda>n. n)") auto

declare dec_digits.simps [simp del]

definition str_int :: "int \<Rightarrow> pystr" where
  "str_int i = (if i < 0 then 45 # dec_digits (nat (- i)) else dec_digits (nat i))"

text \<open>The formatting of an \<open>Optional[int]\<close> field in an f-string.\<close>

definition format_opt_int :: "int option \<Rightarrow> pystr" where
  "format_opt_int v = (case v of None \<Rightarrow> ascii ''None'' | Some i \<Rightarrow> str_int i)"

section \<open>Encodings of the standard library\<close>

subsection \<open>\<open>str.encode("utf-8")\<close>\<close>

text \<open>
  A surrogate code point cannot be encoded: Python raises \<open>UnicodeEncodeError\<close>, which is
  \<open>None\<close> here. A number from 1114112 on is not a code point of any \<open>str\<close>.
\<close>

definition utf8_char :: "nat \<Rightarrow> bytes option" where
  "utf8_char c =
     (if c < 128 then Some [c]
      else if c < 2048 then Some [192 + c div 64, 128 + c mod 64]
      else if 55296 \<le> c \<and> c \<le> 57343 then None
      else if c < 65536 then
        Some [224 + c div 4096, 128 + c div 64 mod 64, 128 + c mod 64]
      else if c < 1114112 then
        Some [240 + c div 262144, 128 + c div 4096 mod 64, 128 + c div 64 mod 64, 128 + c mod 64]
      else None)"

fun utf8_encode :: "pystr \<Rightarrow> bytes option" where
  "utf8_encode [] = Some []"
| "utf8_encode (c # cs) =
     (case utf8_char c of
        None \<Rightarrow> None
      | Some bs \<Rightarrow> (case utf8_encode cs of None \<Rightarrow> None | Some rest \<Rightarrow> Some (bs @ rest)))"

text \<open>Unicode text: every code point is a scalar value (no surrogate).\<close>

definition unicode_text :: "pystr \<Rightarrow> bool" where
  "unicode_text s = list_all (\<lambda>c. c < 1114112 \<and> \<not> (55296 \<le> c \<and> c \<le> 57343)) s"

subsection \<open>\<open>hashlib.sha256\<close>\<close>

text \<open>
  SHA-256 as FIPS 180-4 defines it. A 32-bit word is a natural number below \<open>2^32\<close>
  with the wrap-around of the addition written out.
\<close>

type_synonym w32 = nat

definition add32 :: "w32 \<Rightarrow> w32 \<Rightarrow> w32" where
  "add32 x y = (x + y) mod 4294967296"

definition rotr :: "nat \<Rightarrow> w32 \<Rightarrow> w32" where
  "rotr n x = x div 2 ^ n + (x mod 2 ^ n) * 2 ^ (32 - n)"

definition shr :: "nat \<Rightarrow> w32 \<Rightarrow> w32" where
  "shr n x = x div 2 ^ n"

definition not32 :: "w32 \<Rightarrow> w32" where
  "not32 x = 4294967295 - x"

definition Ch :: "w32 \<Rightarrow> w32 \<Rightarrow> w32 \<Rightarrow> w32" where
  "Ch x y z = (x AND y) XOR (not32 x AND z)"

definition Maj :: "w32 \<Rightarrow> w32 \<Rightarrow> w32 \<Rightarrow> w32" where
  "Maj x y z = (x AND y) XOR (x AND z) XOR (y AND z)"

definition bsig0 :: "w32 \<Rightarrow> w32" where
  "bsig0 x = rotr 2 x XOR rotr 13 x XOR rotr 22 x"

definition bsig1 :: "w32 \<Rightarrow> w32" where
  "bsig1 x = rotr 6 x XOR rotr 11 x XOR rotr 25 x"

definition ssig0 :: "w32 \<Rightarrow> w32" where
  "ssig0 x = rotr 7 x XOR rotr 18 x XOR shr 3 x"

definition ssig1 :: "w32 \<Rightarrow> w32" where
  "ssig1 x = rotr 17 x XOR rotr 19 x XOR shr 10 x"

definition sha256_K :: "w32 list" where
  "sha256_K =
    [1116352408, 1899447441, 3049323471, 3921009573,
     961987163, 1508970993, 2453635748, 2870763221,
     3624381080, 310598401, 607225278, 1426881987,
     1925078388, 2162078206, 2614888103, 3248222580,
     3835390401, 4022224774, 264347078, 604807628,
     770255983, 1249150122, 1555081692, 1996064986,
     2554220882, 2821834349, 2952996808, 3210313671,
     3336571891, 3584528711, 113926993, 338241895,
     666307205, 773529912, 1294757372, 1396182291,
     1695183700, 1986661051, 2177026350, 2456956037,
     2730485921, 2820302411, 3259730800, 3345764771,
     3516065817, 3600352804, 4094571909, 275423344,
     430227734, 506948616, 659060556, 883997877,
     958139571, 1322822218, 1537002063, 1747873779,
     1955562222, 2024104815, 2227730452, 2361852424,
     2428436474, 2756734187, 3204031479, 3329325298]"

definition sha256_H0 :: "w32 list" where
  "sha256_H0 = [1779033703, 3144134277, 1013904242, 2773480762,
                1359893119, 2600822924, 528734635, 1541459225]"

text \<open>The big-endian value of a byte string, and the big-endian bytes of a word.\<close>

definition be_nat :: "bytes \<Rightarrow> nat" where
  "be_nat bs = foldl (\<lambda>acc b. acc * 256 + b) 0 bs"

definition be32 :: "nat \<Rightarrow> bytes" where
  "be32 v = [v div 16777216 mod 256, v div 65536 mod 256, v div 256 mod 256, v mod 256]"

definition be64 :: "nat \<Rightarrow> bytes" where
  "be64 v = be32 (v div 4294967296) @ be32 v"

definition sha256_pad :: "bytes \<Rightarrow> bytes" where
  "sha256_pad m =
     m @ [128] @ replicate ((119 - length m mod 64) mod 64) 0 @ be64 (8 * length m)"

function chunks :: "nat \<Rightarrow> 'a list \<Rightarrow> 'a list list" where
  "chunks k xs = (if k = 0 \<or> xs = [] then [] else take k xs # chunks k (drop k xs))"
  by pat_completeness auto
termination
  by (relation "measure (\<lambda>(k, xs). length xs)") auto

declare chunks.simps [simp del]

definition block_words :: "bytes \<Rightarrow> w32 list" where
  "block_words blk = map be_nat (chunks 4 blk)"

definition schedule_step :: "w32 list \<Rightarrow> nat \<Rightarrow> w32 list" where
  "schedule_step ws t =
     ws @ [add32 (add32 (add32 (ssig1 (ws ! (t - 2))) (ws ! (t - 7)))
                        (ssig0 (ws ! (t - 15)))) (ws ! (t - 16))]"

definition schedule :: "w32 list \<Rightarrow> w32 list" where
  "schedule ws = foldl schedule_step ws [16..<64]"

fun sha256_round :: "w32 list \<Rightarrow> w32 \<times> w32 \<Rightarrow> w32 list" where
  "sha256_round [a, b, c, d, e, f, g, h] (k, w) =
     (let t1 = add32 (add32 (add32 (add32 h (bsig1 e)) (Ch e f g)) k) w;
          t2 = add32 (bsig0 a) (Maj a b c)
      in [add32 t1 t2, a, b, c, add32 d t1, e, f, g])"
| "sha256_round s _ = s"

definition compress :: "w32 list \<Rightarrow> bytes \<Rightarrow> w32 list" where
  "compress hs blk =
     map2 add32 hs (foldl sha256_round hs (zip sha256_K (schedule (block_words blk))))"

definition sha256 :: "bytes \<Rightarrow> bytes" where
  "sha256 m = concat (map be32 (foldl compress sha256_H0 (chunks 64 (sha256_pad m))))"

subsection \<open>\<open>hexdigest\<close> and \<open>int(s, 16)\<close>\<close>

definition hex_char :: "nat \<Rightarrow> nat" where
  "hex_char d = (if d < 10 then 48 + d else 87 + d)"

definition hexdigest :: "bytes \<Rightarrow> pystr" where
  "hexdigest bs = concat (map (\<lambda>b. [hex_char (b div 16), hex_char (b mod 16)]) bs)"

text \<open>
  \<open>int(s, 16)\<close> on a string of hexadecimal digits; \<open>None\<close> is the \<open>ValueError\<close> of an
  empty string or of a character that is no digit. (The sign, the \<open>0x\<close> prefix, the
  underscores and the surrounding white space that \<open>int\<close> also accepts do not occur in a
  hexdigest and are not modelled.)
\<close>

definition hex_val :: "nat \<Rightarrow> nat option" where
  "hex_val c =
     (if 48 \<le> c \<and> c \<le> 57 then Some (c - 48)
      else if 97 \<le> c \<and> c \<le> 102 then Some (c - 87)
      else if 65 \<le> c \<and> c \<le> 70 then Some (c - 55)
      else None)"

fun int16_from :: "nat \<Rightarrow> pystr \<Rightarrow> nat option" where
  "int16_from acc [] = Some acc"
| "int16_from acc (c # cs) =
     (case hex_val c of None \<Rightarrow> None | Some d \<Rightarrow> int16_from (acc * 16 + d) cs)"

definition int16 :: "pystr \<Rightarrow> nat option" where
  "int16 s = (if s = [] then None else int16_from 0 s)"

subsection \<open>\<open>base64.b64encode\<close>\<close>

definition b64_char :: "nat \<Rightarrow> nat" where
  "b64_char i =
     (if i < 26 then 65 + i
      else if i < 52 then 71 + i
      else if i < 62 then i - 4
      else if i = 62 then 43
      else 47)"

fun b64encode :: "bytes \<Rightarrow> pystr" where
  "b64encode [] = []"
| "b64encode [a] = [b64_char (a div 4), b64_char (a mod 4 * 16), 61, 61]"
| "b64encode [a, b] =
     [b64_char (a div 4), b64_char (a mod 4 * 16 + b div 16), b64_char (b mod 16 * 4), 61]"
| "b64encode (a # b # c # rest) =
     [b64_char (a div 4), b64_char (a mod 4 * 16 + b div 16),
      b64_char (b mod 16 * 4 + c div 64), b64_char (c mod 64)] @ b64encode rest"

section \<open>Data model\<close>

text \<open>
  \<open>GenerateRequest\<close> and \<open>GenerateResponse\<close> are the two pydantic models of
  \<open>main.py\<close>. \<open>validate_request\<close> is the validation of the body against
  \<open>GenerateRequest\<close> that FastAPI runs before the handler: the prompt as it was sent
  has \<open>min_length=3\<close>, and a width or height that is not \<open>None\<close> has
  \<open>ge=128, le=1024\<close>. To measure the prompt pydantic reads it as Unicode text, and
  refuses a string with a lone surrogate (the only strings that have no UTF-8 encoding).
\<close>

record GenerateRequest =
  prompt :: pystr
  provider :: "pystr option"
  width :: "int option"
  height :: "int option"

record GenerateResponse =
  image_b64 :: pystr
  provider :: pystr
  model :: "pystr option"
  mode :: pystr
  note' :: "pystr option"

definition in_range :: "int option \<Rightarrow> bool" where
  "in_range v = (case v of None \<Rightarrow> True | Some i \<Rightarrow> 128 \<le> i \<and> i \<le> 1024)"

definition validate_request :: "GenerateRequest \<Rightarrow> bool" where
  "validate_request req \<longleftrightarrow>
     unicode_text (prompt req) \<and> 3 \<le> length (prompt req) \<and>
     in_range (width req) \<and> in_range (height req)"

text \<open>
  The errors a call of the endpoint can end with. \<open>RequestValidationError\<close> is FastAPI's
  answer to a body that fails \<open>validate_request\<close> (status 422); \<open>HTTPException\<close> carries
  its status code and detail; the other two are Python exceptions that no handler of
  \<open>generate_image\<close> catches on the demo path (status 500).
\<close>

datatype error =
    RequestValidationError
  | HTTPException nat pystr
  | UnicodeEncodeError
  | ValueError

fun status_of :: "error \<Rightarrow> nat" where
  "status_of RequestValidationError = 422"
| "status_of (HTTPException code detail) = code"
| "status_of UnicodeEncodeError = 500"
| "status_of ValueError = 500"

section \<open>The environment of a request\<close>

text \<open>
  Everything \<open>generate_image\<close> reads from outside: the environment variable, the storage
  collaborator (modules \<open>database\<close> and \<open>schemas\<close>), the two HTTP calls of \<open>requests\<close>
  and the case mapping of the interpreter. A call either returns or raises.
\<close>

datatype 'a outcome = Returns 'a | Raises

record response =
  status_code :: nat
  content :: bytes
  text' :: pystr

record post_request =
  url :: pystr
  headers :: "(pystr \<times> pystr) list"
  data :: "(pystr \<times> pystr) list"
  timeout :: nat

datatype document =
  ImageGeneration pystr pystr "pystr option" "pystr option" "int option" "int option"

record env =
  STABILITY_API_KEY :: "pystr option"
  create_document :: "pystr \<Rightarrow> document \<Rightarrow> pystr outcome"
  db_available :: bool
  requests_post :: "post_request \<Rightarrow> response outcome"
  requests_get :: "pystr \<Rightarrow> nat \<Rightarrow> response outcome"
  unicode_lower :: ucd_lower

text \<open>What a request does to the outside, in order.\<close>

datatype event =
    DbInsert pystr document
  | DbUpdate
  | HttpPost post_request
  | HttpGet pystr

fun is_network :: "event \<Rightarrow> bool" where
  "is_network (HttpPost rq) = True"
| "is_network (HttpGet u) = True"
| "is_network _ = False"

section \<open>The handler \<open>generate_image\<close>\<close>

text \<open>The truth value of an \<open>Optional[str]\<close>, and \<open>a or b\<close> on it.\<close>

definition truthy :: "pystr option \<Rightarrow> bool" where
  "truthy v = (case v of None \<Rightarrow> False | Some s \<Rightarrow> s \<noteq> [])"

definition py_or :: "pystr option \<Rightarrow> pystr \<Rightarrow> pystr" where
  "py_or v d = (case v of None \<Rightarrow> d | Some s \<Rightarrow> if s = [] then d else s)"

text \<open>An \<open>Optional[str]\<close> inside an f-string.\<close>

definition format_opt_str :: "pystr option \<Rightarrow> pystr" where
  "format_opt_str v = (case v of None \<Rightarrow> ascii ''None'' | Some s \<Rightarrow> s)"

text \<open>Line 98: the provider of the request.\<close>

definition resolve_provider :: "env \<Rightarrow> GenerateRequest \<Rightarrow> pystr" where
  "resolve_provider e req =
     lower (unicode_lower e)
       (py_or (GenerateRequest.provider req)
          (if truthy (STABILITY_API_KEY e) then ascii ''stability'' else ascii ''demo''))"

text \<open>\<open>d[k] = v\<close> on a dictionary kept as an association list in insertion order.\<close>

fun dict_set :: "(pystr \<times> pystr) list \<Rightarrow> pystr \<Rightarrow> pystr \<Rightarrow> (pystr \<times> pystr) list" where
  "dict_set [] k v = [(k, v)]"
| "dict_set ((k', v') # d) k v =
     (if k' = k then (k, v) # d else (k', v') # dict_set d k v)"

text \<open>Lines 111 to 127: the request sent to the live backend.\<close>

definition live_request :: "pystr option \<Rightarrow> GenerateRequest \<Rightarrow> pystr \<Rightarrow> post_request" where
  "live_request stability_key req prompt' =
     (let data0 =
            [(ascii ''prompt'', prompt'),
             (ascii ''output_format'', ascii ''png''),
             (ascii ''aspect_ratio'',
              format_opt_int (width req) @ ascii '':'' @ format_opt_int (height req))];
          data1 =
            (if width req = height req
             then dict_set data0 (ascii ''aspect_ratio'') (ascii ''1:1'')
             else dict_set data0 (ascii ''aspect_ratio'') (ascii ''1:1''))
      in \<lparr>url = ascii ''https://api.stability.ai/v2beta/stable-image/generate/core'',
          headers = [(ascii ''Authorization'', ascii ''Bearer '' @ format_opt_str stability_key)],
          data = data1,
          timeout = 120\<rparr>)"

text \<open>Line 163: the embedded image of one white pixel.\<close>

definition fallback_png :: bytes where
  "fallback_png =
     [137,80,78,71,13,10,26,10,0,0,0,13,73,72,68,82,0,0,0,1,0,0,0,1,8,6,0,0,0,31,21,196,137,
      0,0,0,12,73,68,65,84,120,156,99,248,15,4,0,9,251,3,253,134,87,198,122,0,0,0,0,73,69,78,
      68,174,66,96,130]"

text \<open>\<open>Response.raise_for_status()\<close> raises for a status from 400 to 599.\<close>

definition raise_for_status :: "response \<Rightarrow> bool" where
  "raise_for_status r \<longleftrightarrow> 400 \<le> status_code r \<and> status_code r < 600"

text \<open>Line 155: the seed.\<close>

definition demo_seed :: "pystr \<Rightarrow> error + nat" where
  "demo_seed prompt' =
     (case utf8_encode prompt' of
        None \<Rightarrow> Inl UnicodeEncodeError
      | Some bs \<Rightarrow>
          (case int16 (hexdigest (sha256 bs)) of
             None \<Rightarrow> Inl ValueError
           | Some n \<Rightarrow> Inr (n mod 10 ^ 8)))"

text \<open>Line 156: the address of the stock image.\<close>

definition demo_url :: "nat \<Rightarrow> GenerateRequest \<Rightarrow> pystr" where
  "demo_url seed req =
     ascii ''https://picsum.photos/seed/'' @ str_int (int seed) @ ascii ''/'' @
     format_opt_int (width req) @ ascii ''/'' @ format_opt_int (height req)"

definition demo_note :: pystr where
  "demo_note = ascii
     ''Running in demo mode without an AI key. Set STABILITY_API_KEY to enable real image generation.''"

text \<open>Lines 154 to 166: the demo path, with the label \<open>provider'\<close> it returns.\<close>

definition demo_mode ::
  "env \<Rightarrow> GenerateRequest \<Rightarrow> pystr \<Rightarrow> pystr \<Rightarrow> event list \<times> (error + GenerateResponse)" where
  "demo_mode e req prompt' provider' =
     (case demo_seed prompt' of
        Inl err \<Rightarrow> ([], Inl err)
      | Inr seed \<Rightarrow>
          (let img_b64 =
                 (case requests_get e (demo_url seed req) 30 of
                    Returns r \<Rightarrow>
                      if raise_for_status r then b64encode fallback_png
                      else b64encode (content r)
                  | Raises \<Rightarrow> b64encode fallback_png)
           in ([HttpGet (demo_url seed req)],
               Inr \<lparr>image_b64 = img_b64, provider = provider', model = None,
                    mode = ascii ''demo'', note' = Some demo_note\<rparr>)))"

text \<open>
  Lines 92 to 166. The result is the list of what the call did to the outside and either
  the error raised or the response returned.
\<close>

definition generate_image ::
  "env \<Rightarrow> GenerateRequest \<Rightarrow> event list \<times> (error + GenerateResponse)" where
  "generate_image e req =
     (let prompt' = strip (prompt req) in
      if prompt' = [] then ([], Inl (HTTPException 400 (ascii ''Prompt is required'')))
      else
        let stability_key = STABILITY_API_KEY e;
            provider' = resolve_provider e req;
            base_doc = ImageGeneration prompt' provider' None None (width req) (height req);
            id' = (case create_document e (ascii ''imagegeneration'') base_doc of
                     Returns i \<Rightarrow> Some i
                   | Raises \<Rightarrow> None);
            saved = [DbInsert (ascii ''imagegeneration'') base_doc]
        in if provider' = ascii ''stability'' \<and> truthy stability_key then
             (let rq = live_request stability_key req prompt' in
              case requests_post e rq of
                Returns resp \<Rightarrow>
                  if status_code resp \<noteq> 200 then
                    (saved @ [HttpPost rq],
                     Inl (HTTPException 500
                            (ascii ''Stability API error: '' @ str_int (int (status_code resp)) @
                             ascii '' '' @ take 200 (text' resp))))
                  else
                    (saved @ [HttpPost rq] @
                       (if db_available e \<and> id' \<noteq> None then [DbUpdate] else []),
                     Inr \<lparr>image_b64 = b64encode (content resp),
                          provider = ascii ''stability'',
                          model = Some (ascii ''stable-image-core''),
                          mode = ascii ''live'',
                          note' = None\<rparr>)
              | Raises \<Rightarrow>
                  (case demo_mode e req prompt' (ascii ''demo'') of
                     (evs, res) \<Rightarrow> (saved @ [HttpPost rq] @ evs, res)))
           else
             (case demo_mode e req prompt' provider' of
                (evs, res) \<Rightarrow> (saved @ evs, res)))"

text \<open>
  The route \<open>POST /api/generate\<close>: FastAPI validates the body against \<open>GenerateRequest\<close>
  and calls the handler only when it passes.
\<close>

definition api_generate ::
  "env \<Rightarrow> GenerateRequest \<Rightarrow> event list \<times> (error + GenerateResponse)" where
  "api_generate e req =
     (if validate_request req then generate_image e req else ([], Inl RequestValidationError))"

text \<open>
  The stock-image fetch fails when \<open>requests.get\<close> raises or \<open>raise_for_status\<close> does:
  these are the cases the handler at line 161 catches.
\<close>

definition fetch_failed :: "response outcome \<Rightarrow> bool" where
  "fetch_failed r = (case r of Raises \<Rightarrow> True | Returns resp \<Rightarrow> raise_for_status resp)"

section \<open>Example environments and requests\<close>

text \<open>
  The concrete inputs of the examples below. Their prompts and hints are ASCII, so the
  case mapping beyond ASCII is never consulted; \<open>no_ucd\<close> leaves such a code point as
  it is.
\<close>

definition no_ucd :: ucd_lower where
  "no_ucd s i = [s ! i]"

definition example_env :: "pystr option \<Rightarrow> response outcome \<Rightarrow> response outcome \<Rightarrow> env" where
  "example_env key post_result get_result =
     \<lparr>STABILITY_API_KEY = key,
      create_document = (\<lambda>c d. Raises),
      db_available = False,
      requests_post = (\<lambda>rq. post_result),
      requests_get = (\<lambda>u t. get_result),
      unicode_lower = no_ucd\<rparr>"

definition example_response :: "nat \<Rightarrow> response" where
  "example_response code = \<lparr>status_code = code, content = [71, 73, 70], text' = []\<rparr>"

definition fox_request :: GenerateRequest where
  "fox_request = \<lparr>prompt = ascii ''a red fox'', GenerateRequest.provider = None,
                   width = Some 512, height = Some 768\<rparr>"

lemmas example_defs =
  example_env_def example_response_def fox_request_def no_ucd_def ascii_def
  strip_def is_space_def resolve_provider_def py_or_def truthy_def lower_def ascii_lower_def
  validate_request_def in_range_def unicode_text_def

section \<open>White space, UTF-8 and the digest\<close>


lemma set_strip: "set (strip s) \<subseteq> set s"
proof -
  have "set (strip s) \<subseteq> set (dropWhile is_space s)"
    unfolding strip_def using set_dropWhileD by fastforce
  also have "\<dots> \<subseteq> set s"
    using set_dropWhileD by fastforce
  finally show ?thesis .
qed

lemma length_strip: "length (strip s) \<le> length s"
proof -
  have "length (strip s) \<le> length (dropWhile is_space s)"
    using length_dropWhile_le [of is_space "rev (dropWhile is_space s)"]
    by (simp add: strip_def)
  also have "\<dots> \<le> length s"
    by (rule length_dropWhile_le)
  finally show ?thesis .
qed

lemma unicode_text_strip: "unicode_text s \<Longrightarrow> unicode_text (strip s)"
  using set_strip [of s] by (auto simp: unicode_text_def list_all_iff)

lemma utf8_char_Some:
  "c < 1114112 \<Longrightarrow> \<not> (55296 \<le> c \<and> c \<le> 57343) \<Longrightarrow> \<exists>bs. utf8_char c = Some bs"
  by (simp add: utf8_char_def)

lemma utf8_encode_unicode_text: "unicode_text s \<Longrightarrow> \<exists>bs. utf8_encode s = Some bs"
proof (induction s)
  case Nil
  then show ?case by simp
next
  case (Cons c cs)
  then obtain rest where rest: "utf8_encode cs = Some rest"
    by (auto simp: unicode_text_def)
  from Cons.prems obtain bs where "utf8_char c = Some bs"
    using utf8_char_Some [of c] by (auto simp: unicode_text_def)
  with rest show ?case by simp
qed

lemma utf8_encode_Some_iff: "(\<exists>bs. utf8_encode s = Some bs) \<longleftrightarrow> unicode_text s"
proof
  show "\<exists>bs. utf8_encode s = Some bs \<Longrightarrow> unicode_text s"
  proof (induction s)
    case Nil
    then show ?case by (simp add: unicode_text_def)
  next
    case (Cons c cs)
    then show ?case
      by (auto simp: unicode_text_def utf8_char_def split: option.splits if_splits)
  qed
qed (rule utf8_encode_unicode_text)

lemma length_sha256_round: "length s = 8 \<Longrightarrow> length (sha256_round s kw) = 8"
  by (cases "(s, kw)" rule: sha256_round.cases) (simp_all add: Let_def)

lemma length_rounds: "length s = 8 \<Longrightarrow> length (foldl sha256_round s kws) = 8"
  by (induction kws arbitrary: s) (simp_all add: length_sha256_round)

lemma length_compress: "length hs = 8 \<Longrightarrow> length (compress hs blk) = 8"
  by (simp add: compress_def length_rounds)

lemma length_blocks: "length hs = 8 \<Longrightarrow> length (foldl compress hs blks) = 8"
  by (induction blks arbitrary: hs) (simp_all add: length_compress)

lemma length_concat_be32: "length (concat (map be32 ws)) = 4 * length ws"
  by (induction ws) (simp_all add: be32_def)

lemma length_sha256: "length (sha256 m) = 32"
  by (simp add: sha256_def length_concat_be32 length_blocks sha256_H0_def)

lemma sha256_bytes: "b \<in> set (sha256 m) \<Longrightarrow> b < 256"
  by (auto simp: sha256_def be32_def)

lemma hex_val_hex_char: "d < 16 \<Longrightarrow> hex_val (hex_char d) = Some d"
  by (simp add: hex_val_def hex_char_def)

lemma int16_from_hexdigest:
  "\<forall>b \<in> set bs. b < 256 \<Longrightarrow>
   int16_from acc (hexdigest bs) = Some (foldl (\<lambda>acc b. acc * 256 + b) acc bs)"
proof (induction bs arbitrary: acc)
  case Nil
  then show ?case by (simp add: hexdigest_def)
next
  case (Cons b bs)
  have b: "b < 256" using Cons.prems by simp
  then have hi: "b div 16 < 16" and lo: "b mod 16 < 16" by simp_all
  have step: "(acc * 16 + b div 16) * 16 + b mod 16 = acc * 256 + b"
    by (simp add: algebra_simps)
  have "int16_from acc (hexdigest (b # bs)) =
        int16_from ((acc * 16 + b div 16) * 16 + b mod 16) (hexdigest bs)"
    by (simp add: hexdigest_def hex_val_hex_char [OF hi] hex_val_hex_char [OF lo])
  also have "\<dots> = Some (foldl (\<lambda>acc b. acc * 256 + b) (acc * 256 + b) bs)"
    unfolding step using Cons.prems by (intro Cons.IH) simp
  finally show ?case by simp
qed

lemma int16_hexdigest:
  "bs \<noteq> [] \<Longrightarrow> \<forall>b \<in> set bs. b < 256 \<Longrightarrow> int16 (hexdigest bs) = Some (be_nat bs)"
  by (cases bs) (simp_all add: int16_def be_nat_def int16_from_hexdigest, simp add: hexdigest_def)

lemma demo_seed_value:
  "utf8_encode p = Some bs \<Longrightarrow> demo_seed p = Inr (be_nat (sha256 bs) mod 10 ^ 8)"
proof -
  have "sha256 bs \<noteq> []" using length_sha256 [of bs] by auto
  then have "int16 (hexdigest (sha256 bs)) = Some (be_nat (sha256 bs))"
    by (intro int16_hexdigest) (auto dest: sha256_bytes)
  then show "utf8_encode p = Some bs \<Longrightarrow> ?thesis"
    by (simp add: demo_seed_def)
qed


section \<open>Evaluating the encodings\<close>

lemma replicate_numeral_Cons: "replicate (numeral k) x = x # replicate (pred_numeral k) x"
  by (simp add: numeral_eq_Suc)

lemmas sha256_eval =
  sha256_def sha256_pad_def be64_def be32_def be_nat_def chunks.simps block_words_def
  schedule_def schedule_step_def compress_def sha256_K_def sha256_H0_def add32_def rotr_def
  shr_def not32_def Ch_def Maj_def bsig0_def bsig1_def ssig0_def ssig1_def
  replicate_numeral_Cons

lemma sha256_a_red_fox:
  "sha256 [97, 32, 114, 101, 100, 32, 102, 111, 120] =
     [100, 124, 58, 101, 32, 184, 125, 56, 124, 133, 160, 143, 175, 247, 104, 207,
      146, 244, 54, 209, 71, 125, 171, 185, 81, 215, 198, 65, 120, 19, 190, 180]"
  by (simp add: sha256_eval)

lemma utf8_a_red_fox:
  "utf8_encode (ascii ''a red fox'') = Some [97, 32, 114, 101, 100, 32, 102, 111, 120]"
  by (simp add: ascii_def utf8_char_def)

lemma demo_seed_a_red_fox: "demo_seed (ascii ''a red fox'') = Inr 78648756"
  by (simp add: demo_seed_value [OF utf8_a_red_fox] sha256_a_red_fox be_nat_def)

lemma sha256_padded_fox:
  "sha256 [32, 32, 97, 32, 114, 101, 100, 32, 102, 111, 120, 32] =
     [39, 207, 217, 154, 137, 201, 221, 133, 112, 219, 118, 121, 129, 33, 88, 99,
      105, 159, 211, 92, 45, 44, 252, 155, 222, 37, 231, 159, 184, 252, 197, 139]"
  by (simp add: sha256_eval)

lemma utf8_padded_fox:
  "utf8_encode (ascii ''  a red fox '') =
     Some [32, 32, 97, 32, 114, 101, 100, 32, 102, 111, 120, 32]"
  by (simp add: ascii_def utf8_char_def)

lemma demo_url_a_red_fox:
  "demo_url 78648756 fox_request = ascii ''https://picsum.photos/seed/78648756/512/768''"
  by (simp add: demo_url_def fox_request_def ascii_def format_opt_int_def str_int_def
      dec_digits.simps)

lemma demo_url_dimensions:
  "width r1 = width r2 \<Longrightarrow> height r1 = height r2 \<Longrightarrow> demo_url seed r1 = demo_url seed r2"
  by (simp add: demo_url_def)


lemma demo_note_nonempty: "demo_note \<noteq> []"
  by (simp add: demo_note_def ascii_def)

lemma lower_stability: "lower ucd (ascii ''stability'') = ascii ''stability''"
  by (simp add: lower_def ascii_def ascii_lower_def)

lemma lower_demo: "lower ucd (ascii ''demo'') = ascii ''demo''"
  by (simp add: lower_def ascii_def ascii_lower_def)

section \<open>The demo path and the events of a call\<close>

lemma demo_seed_total: "unicode_text p \<Longrightarrow> \<exists>seed. demo_seed p = Inr seed"
  using utf8_encode_unicode_text [of p] by (auto simp: demo_seed_value)

lemma validated_prompt_seed:
  "validate_request req \<Longrightarrow> \<exists>seed. demo_seed (strip (prompt req)) = Inr seed"
  by (simp add: validate_request_def demo_seed_total unicode_text_strip)

lemma demo_mode_result:
  "demo_seed p = Inr seed \<Longrightarrow>
   \<exists>img. demo_mode e req p l =
     ([HttpGet (demo_url seed req)],
      Inr \<lparr>image_b64 = img, provider = l, model = None, mode = ascii ''demo'',
           note' = Some demo_note\<rparr>)"
  by (simp add: demo_mode_def Let_def)

lemma demo_mode_fallback:
  "demo_seed p = Inr seed \<Longrightarrow> fetch_failed (requests_get e (demo_url seed req) 30) \<Longrightarrow>
   demo_mode e req p l =
     ([HttpGet (demo_url seed req)],
      Inr \<lparr>image_b64 = b64encode fallback_png, provider = l, model = None,
           mode = ascii ''demo'', note' = Some demo_note\<rparr>)"
  by (simp add: demo_mode_def Let_def fetch_failed_def split: outcome.splits)

lemma demo_mode_events:
  "demo_mode e req p l = (evs, res) \<Longrightarrow>
   evs = [] \<or> (\<exists>seed. demo_seed p = Inr seed \<and> evs = [HttpGet (demo_url seed req)])"
  by (auto simp: demo_mode_def Let_def split: sum.splits)

lemma live_request_aspect:
  "map_of (data (live_request k req p)) (ascii ''aspect_ratio'') = Some (ascii ''1:1'')"
  by (simp add: live_request_def ascii_def)

lemma generate_image_posts:
  "HttpPost rq \<in> set (fst (generate_image e req)) \<Longrightarrow>
   rq = live_request (STABILITY_API_KEY e) req (strip (prompt req))"
  by (auto simp: generate_image_def Let_def split: if_splits outcome.splits prod.splits
      dest: demo_mode_events)

lemma generate_image_gets:
  "HttpGet u \<in> set (fst (generate_image e req)) \<Longrightarrow>
   \<exists>seed. demo_seed (strip (prompt req)) = Inr seed \<and> u = demo_url seed req"
  by (auto simp: generate_image_def Let_def split: if_splits outcome.splits prod.splits
      dest: demo_mode_events)

lemma resolve_provider_cases:
  "resolve_provider e req =
     (case GenerateRequest.provider req of
        Some h \<Rightarrow>
          if h \<noteq> [] then lower (unicode_lower e) h
          else if truthy (STABILITY_API_KEY e) then ascii ''stability'' else ascii ''demo''
      | None \<Rightarrow> if truthy (STABILITY_API_KEY e) then ascii ''stability'' else ascii ''demo'')"
  by (simp add: resolve_provider_def py_or_def lower_stability lower_demo split: option.splits)

lemma demo_path_outcome:
  assumes "validate_request req" and "strip (prompt req) \<noteq> []"
    and "\<not> (resolve_provider e req = ascii ''stability'' \<and> truthy (STABILITY_API_KEY e))"
  shows "\<exists>seed img. demo_seed (strip (prompt req)) = Inr seed \<and>
     api_generate e req =
       ([DbInsert (ascii ''imagegeneration'')
           (ImageGeneration (strip (prompt req)) (resolve_provider e req) None None
              (width req) (height req)),
         HttpGet (demo_url seed req)],
        Inr \<lparr>image_b64 = img, provider = resolve_provider e req, model = None,
             mode = ascii ''demo'', note' = Some demo_note\<rparr>)"
proof -
  from assms(1) obtain seed where seed: "demo_seed (strip (prompt req)) = Inr seed"
    using validated_prompt_seed by blast
  then obtain img where
    "demo_mode e req (strip (prompt req)) (resolve_provider e req) =
       ([HttpGet (demo_url seed req)],
        Inr \<lparr>image_b64 = img, provider = resolve_provider e req, model = None,
             mode = ascii ''demo'', note' = Some demo_note\<rparr>)"
    using demo_mode_result by blast
  with assms seed show ?thesis
    by (auto simp: api_generate_def generate_image_def Let_def)
qed

lemma resolve_provider_db:
  "resolve_provider (e\<lparr>create_document := f, db_available := b\<rparr>) req = resolve_provider e req"
  by (simp add: resolve_provider_def)

lemma demo_mode_db:
  "demo_mode (e\<lparr>create_document := f, db_available := b\<rparr>) req p l = demo_mode e req p l"
  by (simp add: demo_mode_def Let_def split: sum.splits)

lemma fox_events:
  "strip p = ascii ''a red fox'' \<Longrightarrow>
   fst (generate_image (example_env None Raises Raises) (fox_request\<lparr>prompt := p\<rparr>)) =
     [DbInsert (ascii ''imagegeneration'')
        (ImageGeneration (ascii ''a red fox'') (ascii ''demo'') None None (Some 512) (Some 768)),
      HttpGet (ascii ''https://picsum.photos/seed/78648756/512/768'')]"
proof -
  assume p: "strip p = ascii ''a red fox''"
  have ne: "ascii ''a red fox'' \<noteq> []" by (simp add: ascii_def)
  have url: "demo_url 78648756 (fox_request\<lparr>prompt := p\<rparr>) =
             ascii ''https://picsum.photos/seed/78648756/512/768''"
    using demo_url_dimensions [of "fox_request\<lparr>prompt := p\<rparr>" fox_request 78648756]
    by (simp add: demo_url_a_red_fox)
  have prov: "resolve_provider (example_env None Raises Raises) (fox_request\<lparr>prompt := p\<rparr>)
              = ascii ''demo''"
    by (simp add: resolve_provider_def example_env_def fox_request_def py_or_def truthy_def
        lower_demo)
  have key: "\<not> truthy (STABILITY_API_KEY (example_env None Raises Raises))"
    by (simp add: example_env_def truthy_def)
  have dims: "width (fox_request\<lparr>prompt := p\<rparr>) = Some 512"
    "height (fox_request\<lparr>prompt := p\<rparr>) = Some 768"
    by (simp_all add: fox_request_def)
  show ?thesis
    by (simp add: generate_image_def Let_def p ne prov key dims demo_mode_def
        demo_seed_a_red_fox url)
qed

section \<open>The claims\<close>

subsection \<open>C1: a failed live call\<close>

text \<open>
  C1 (as the code has it). For a request that passes validation and has a prompt that is
  not blank, with a credential configured and \<open>stability\<close> as the resolved provider:
  when the live call returns a response whose status is not 200, the handler raises an
  \<open>HTTPException\<close> with status 500 that names the upstream status, and the clause
  \<open>except HTTPException: raise\<close> hands it to the caller; only when the live call
  itself raises (transport error, timeout) is the failure absorbed, and the call returns
  a response with mode \<open>demo\<close>.
\<close>

theorem live_failure_handling:
  assumes "validate_request req" and "strip (prompt req) \<noteq> []"
    and "truthy (STABILITY_API_KEY e)"
    and "resolve_provider e req = ascii ''stability''"
  shows
    "(\<forall>resp. requests_post e (live_request (STABILITY_API_KEY e) req (strip (prompt req)))
               = Returns resp \<and> status_code resp \<noteq> 200 \<longrightarrow>
        snd (api_generate e req) =
          Inl (HTTPException 500
                 (ascii ''Stability API error: '' @ str_int (int (status_code resp)) @
                  ascii '' '' @ take 200 (text' resp)))) \<and>
     (requests_post e (live_request (STABILITY_API_KEY e) req (strip (prompt req))) = Raises \<longrightarrow>
        (\<exists>r. snd (api_generate e req) = Inr r \<and> mode r = ascii ''demo''))"
proof (intro conjI allI impI)
  fix resp
  assume "requests_post e (live_request (STABILITY_API_KEY e) req (strip (prompt req)))
            = Returns resp \<and> status_code resp \<noteq> 200"
  with assms show "snd (api_generate e req) =
          Inl (HTTPException 500
                 (ascii ''Stability API error: '' @ str_int (int (status_code resp)) @
                  ascii '' '' @ take 200 (text' resp)))"
    by (simp add: api_generate_def generate_image_def Let_def)
next
  assume raised:
    "requests_post e (live_request (STABILITY_API_KEY e) req (strip (prompt req))) = Raises"
  from assms(1) obtain seed where "demo_seed (strip (prompt req)) = Inr seed"
    using validated_prompt_seed by blast
  then obtain img where
    "demo_mode e req (strip (prompt req)) (ascii ''demo'') =
       ([HttpGet (demo_url seed req)],
        Inr \<lparr>image_b64 = img, provider = ascii ''demo'', model = None, mode = ascii ''demo'',
             note' = Some demo_note\<rparr>)"
    using demo_mode_result by blast
  with assms raised show "\<exists>r. snd (api_generate e req) = Inr r \<and> mode r = ascii ''demo''"
    by (simp add: api_generate_def generate_image_def Let_def)
qed

text \<open>The theorem at a request whose live call times out.\<close>

theorem live_failure_handling_witness:
  "validate_request fox_request \<and> strip (prompt fox_request) \<noteq> [] \<and>
   truthy (STABILITY_API_KEY (example_env (Some (ascii ''sk-test'')) Raises Raises)) \<and>
   resolve_provider (example_env (Some (ascii ''sk-test'')) Raises Raises) fox_request
     = ascii ''stability'' \<and>
   (\<exists>r. snd (api_generate (example_env (Some (ascii ''sk-test'')) Raises Raises) fox_request)
          = Inr r \<and> mode r = ascii ''demo'')"
proof -
  let ?e = "example_env (Some (ascii ''sk-test'')) Raises Raises"
  have v: "validate_request fox_request" by (simp add: example_defs)
  have s: "strip (prompt fox_request) \<noteq> []" by (simp add: example_defs)
  have k: "truthy (STABILITY_API_KEY ?e)" by (simp add: example_defs)
  have p: "resolve_provider ?e fox_request = ascii ''stability''" by (simp add: example_defs)
  have r: "requests_post ?e
             (live_request (STABILITY_API_KEY ?e) fox_request (strip (prompt fox_request)))
           = Raises"
    by (simp add: example_env_def)
  show ?thesis
    using v s k p r live_failure_handling [OF v s k p] by blast
qed

text \<open>
  The claim as the specification states it fails: with a credential configured and the
  live backend answering 500, the caller of \<open>POST /api/generate\<close> gets an error, not a
  demo result.
\<close>

theorem live_non_200_surfaces_error:
  "validate_request fox_request \<and>
   resolve_provider (example_env (Some (ascii ''sk-test'')) (Returns (example_response 500)) Raises)
     fox_request = ascii ''stability'' \<and>
   snd (api_generate
          (example_env (Some (ascii ''sk-test'')) (Returns (example_response 500)) Raises)
          fox_request) =
     Inl (HTTPException 500 (ascii ''Stability API error: 500 ''))"
  by (simp add: api_generate_def generate_image_def Let_def example_defs str_int_def
      dec_digits.simps)

subsection \<open>C2: the static fallback image\<close>




subsection \<open>C3: the seed\<close>

text \<open>
  C3 (as the code has it). The seed of the demo path is a function of the prompt text
  after trimming alone: line 155 hashes the variable \<open>prompt\<close>, which line 93 set to
  \<open>req.prompt.strip()\<close>. For a text whose UTF-8 encoding is \<open>bs\<close> the seed is the
  SHA-256 digest of \<open>bs\<close>, read as one big-endian integer of 256 bits, modulo \<open>10^8\<close>;
  and every stock image that \<open>generate_image\<close> fetches for a request whose prompt is
  this text after trimming is addressed by this seed.
\<close>

theorem seed_is_sha256_mod:
  assumes "utf8_encode p = Some bs"
  shows "demo_seed p = Inr (be_nat (sha256 bs) mod 10 ^ 8) \<and>
    (\<forall>e req u. strip (prompt req) = p \<and> HttpGet u \<in> set (fst (generate_image e req)) \<longrightarrow>
        u = demo_url (be_nat (sha256 bs) mod 10 ^ 8) req)"
proof (intro conjI allI impI)
  show seed: "demo_seed p = Inr (be_nat (sha256 bs) mod 10 ^ 8)"
    using assms by (rule demo_seed_value)
  fix e req u
  assume "strip (prompt req) = p \<and> HttpGet u \<in> set (fst (generate_image e req))"
  with seed show "u = demo_url (be_nat (sha256 bs) mod 10 ^ 8) req"
    using generate_image_gets [of u e req] by auto
qed

text \<open>The scenario of the specification: the prompt \<open>a red fox\<close> has the seed 78648756.\<close>

theorem seed_is_sha256_mod_witness:
  "utf8_encode (ascii ''a red fox'') = Some [97, 32, 114, 101, 100, 32, 102, 111, 120] \<and>
   be_nat (sha256 [97, 32, 114, 101, 100, 32, 102, 111, 120]) =
     45450776922047773493972140489398203953436420610881640447507258435757778648756 \<and>
   demo_seed (ascii ''a red fox'') = Inr 78648756"
  using utf8_a_red_fox seed_is_sha256_mod [OF utf8_a_red_fox] sha256_a_red_fox
  by (simp add: be_nat_def)

text \<open>
  The claim as the specification states it, for the prompt as it was sent, fails: the
  prompt \<open>a red fox\<close> with two blanks before it and one after has the digest value
  79821707 modulo \<open>10^8\<close>, but the stock image is fetched with the seed 78648756 of
  the trimmed text.
\<close>

theorem sent_prompt_is_not_what_is_hashed:
  "prompt (fox_request\<lparr>prompt := ascii ''  a red fox ''\<rparr>) = ascii ''  a red fox '' \<and>
   utf8_encode (ascii ''  a red fox '') =
     Some [32, 32, 97, 32, 114, 101, 100, 32, 102, 111, 120, 32] \<and>
   be_nat (sha256 [32, 32, 97, 32, 114, 101, 100, 32, 102, 111, 120, 32]) mod 10 ^ 8 = 79821707 \<and>
   fst (generate_image (example_env None Raises Raises)
          (fox_request\<lparr>prompt := ascii ''  a red fox ''\<rparr>)) =
     [DbInsert (ascii ''imagegeneration'')
        (ImageGeneration (ascii ''a red fox'') (ascii ''demo'') None None (Some 512) (Some 768)),
      HttpGet (ascii ''https://picsum.photos/seed/78648756/512/768'')] \<and>
   ascii ''https://picsum.photos/seed/78648756/512/768'' \<noteq>
     demo_url 79821707 (fox_request\<lparr>prompt := ascii ''  a red fox ''\<rparr>)"
proof -
  have s: "strip (ascii ''  a red fox '') = ascii ''a red fox''"
    by (simp add: example_defs)
  have d: "be_nat (sha256 [32, 32, 97, 32, 114, 101, 100, 32, 102, 111, 120, 32]) mod 10 ^ 8
           = 79821707"
    by (simp add: sha256_padded_fox be_nat_def)
  have u: "ascii ''https://picsum.photos/seed/78648756/512/768'' \<noteq>
           demo_url 79821707 (fox_request\<lparr>prompt := ascii ''  a red fox ''\<rparr>)"
    by (simp add: demo_url_def fox_request_def ascii_def format_opt_int_def str_int_def
        dec_digits.simps)
  show ?thesis
    using fox_events [OF s] utf8_padded_fox d u by simp
qed

subsection \<open>C4: prompts that are rejected\<close>




subsection \<open>C5: the provider of the response\<close>

text \<open>
  C5 (as the code has it). The provider field of a response is \<open>stability\<close>, or
  \<open>demo\<close>, or the provider hint of the request in lower case when the request has a
  hint that is not empty: the demo path returns the resolved provider as it is, whether
  or not it names a provider the handler knows.
\<close>

theorem result_provider_label:
  "snd (api_generate e req) = Inr r \<Longrightarrow>
   GenerateResponse.provider r = ascii ''stability'' \<or>
   GenerateResponse.provider r = ascii ''demo'' \<or>
   (\<exists>h. GenerateRequest.provider req = Some h \<and> h \<noteq> [] \<and>
        GenerateResponse.provider r = lower (unicode_lower e) h)"
proof -
  assume res: "snd (api_generate e req) = Inr r"
  have label: "l = ascii ''stability'' \<or> l = ascii ''demo'' \<or>
      (\<exists>h. GenerateRequest.provider req = Some h \<and> h \<noteq> [] \<and> l = lower (unicode_lower e) h)"
    if "l = resolve_provider e req \<or> l = ascii ''demo''" for l
    using that by (auto simp: resolve_provider_cases split: option.splits if_splits)
  have demo: "GenerateResponse.provider r = l"
    if "demo_mode e req p l = (evs, Inr r)" for p l evs
    using that by (auto simp: demo_mode_def Let_def split: sum.splits)
  from res have "GenerateResponse.provider r = resolve_provider e req \<or>
                 GenerateResponse.provider r = ascii ''demo'' \<or>
                 GenerateResponse.provider r = ascii ''stability''"
    by (auto simp: api_generate_def generate_image_def Let_def
        split: if_splits outcome.splits prod.splits dest: demo)
  with label show ?thesis by blast
qed

text \<open>The theorem at a request with the hint \<open>DALLE\<close> and no credential.\<close>

theorem result_provider_label_witness:
  "snd (api_generate (example_env None Raises Raises)
          (fox_request\<lparr>GenerateRequest.provider := Some (ascii ''DALLE'')\<rparr>)) =
     Inr \<lparr>image_b64 = b64encode fallback_png, provider = ascii ''dalle'', model = None,
          mode = ascii ''demo'', note' = Some demo_note\<rparr> \<and>
   lower (unicode_lower (example_env None Raises Raises)) (ascii ''DALLE'') = ascii ''dalle''"
proof -
  let ?e = "example_env None Raises Raises"
  let ?r = "fox_request\<lparr>GenerateRequest.provider := Some (ascii ''DALLE'')\<rparr>"
  have p: "resolve_provider ?e ?r = ascii ''dalle''" by (simp add: example_defs)
  have s: "strip (prompt fox_request) = ascii ''a red fox''" by (simp add: example_defs)
  have v: "validate_request ?r" by (simp add: example_defs)
  have f: "fetch_failed (requests_get ?e u 30)" for u
    by (simp add: example_env_def fetch_failed_def)
  have ne: "ascii ''dalle'' \<noteq> ascii ''stability''" "ascii ''a red fox'' \<noteq> []"
    by (simp_all add: ascii_def)
  have r: "snd (api_generate ?e ?r) =
     Inr \<lparr>image_b64 = b64encode fallback_png, provider = ascii ''dalle'', model = None,
          mode = ascii ''demo'', note' = Some demo_note\<rparr>"
    using demo_mode_fallback [OF demo_seed_a_red_fox f, of ?r "ascii ''dalle''"]
    by (simp add: api_generate_def v generate_image_def Let_def s p ne)
  have l: "lower (unicode_lower ?e) (ascii ''DALLE'') = ascii ''dalle''"
    by (simp add: example_defs)
  show ?thesis
    using r l result_provider_label [OF r] by simp
qed

text \<open>
  The claim as the specification states it fails: a request with the hint \<open>Midjourney\<close>
  is answered with the provider \<open>midjourney\<close>, which is neither \<open>stability\<close> nor
  \<open>demo\<close>.
\<close>

theorem unknown_hint_is_returned_as_provider:
  "validate_request (fox_request\<lparr>GenerateRequest.provider := Some (ascii ''Midjourney'')\<rparr>) \<and>
   map_sum status_of GenerateResponse.provider
     (snd (api_generate (example_env None Raises Raises)
             (fox_request\<lparr>GenerateRequest.provider := Some (ascii ''Midjourney'')\<rparr>)))
     = Inr (ascii ''midjourney'') \<and>
   ascii ''midjourney'' \<noteq> ascii ''stability'' \<and> ascii ''midjourney'' \<noteq> ascii ''demo''"
proof -
  let ?e = "example_env None Raises Raises"
  let ?r = "fox_request\<lparr>GenerateRequest.provider := Some (ascii ''Midjourney'')\<rparr>"
  have v: "validate_request ?r" by (simp add: example_defs)
  have s: "strip (prompt ?r) \<noteq> []" by (simp add: example_defs)
  have k: "\<not> (resolve_provider ?e ?r = ascii ''stability'' \<and> truthy (STABILITY_API_KEY ?e))"
    by (simp add: example_defs)
  have p: "resolve_provider ?e ?r = ascii ''midjourney''" by (simp add: example_defs)
  have ne: "ascii ''midjourney'' \<noteq> ascii ''stability'' \<and> ascii ''midjourney'' \<noteq> ascii ''demo''"
    by (simp add: ascii_def)
  from demo_path_outcome [OF v s k] v ne show ?thesis
    unfolding p by auto
qed

subsection \<open>C6: no credential\<close>

text \<open>
  C6. For a request that passes validation and has a prompt that is not blank: when no
  live credential is configured (the variable is unset, or empty), the call returns a
  response with mode \<open>demo\<close> and a note that is not empty, whatever the provider hint.
\<close>

theorem no_credential_means_demo:
  assumes "validate_request req" and "strip (prompt req) \<noteq> []"
    and "\<not> truthy (STABILITY_API_KEY e)"
  shows "\<exists>r n. snd (api_generate e req) = Inr r \<and> mode r = ascii ''demo'' \<and>
               note' r = Some n \<and> n \<noteq> []"
proof -
  from assms obtain seed img where
    "api_generate e req =
       ([DbInsert (ascii ''imagegeneration'')
           (ImageGeneration (strip (prompt req)) (resolve_provider e req) None None
              (width req) (height req)),
         HttpGet (demo_url seed req)],
        Inr \<lparr>image_b64 = img, provider = resolve_provider e req, model = None,
             mode = ascii ''demo'', note' = Some demo_note\<rparr>)"
    using demo_path_outcome [of req e] by blast
  then show ?thesis
    by (simp add: demo_note_nonempty)
qed

text \<open>The theorem at a request that asks for \<open>stability\<close> while no credential is set.\<close>

theorem no_credential_means_demo_witness:
  "validate_request (fox_request\<lparr>GenerateRequest.provider := Some (ascii ''stability'')\<rparr>) \<and>
   strip (prompt (fox_request\<lparr>GenerateRequest.provider := Some (ascii ''stability'')\<rparr>)) \<noteq> [] \<and>
   STABILITY_API_KEY (example_env None Raises (Returns (example_response 200))) = None \<and>
   (\<exists>r n. snd (api_generate (example_env None Raises (Returns (example_response 200)))
                 (fox_request\<lparr>GenerateRequest.provider := Some (ascii ''stability'')\<rparr>)) = Inr r \<and>
          mode r = ascii ''demo'' \<and> note' r = Some n \<and> n \<noteq> [])"
proof -
  let ?e = "example_env None Raises (Returns (example_response 200))"
  let ?r = "fox_request\<lparr>GenerateRequest.provider := Some (ascii ''stability'')\<rparr>"
  have v: "validate_request ?r" by (simp add: example_defs)
  have s: "strip (prompt ?r) \<noteq> []" by (simp add: example_defs)
  have k: "\<not> truthy (STABILITY_API_KEY ?e)" by (simp add: example_defs)
  have k': "STABILITY_API_KEY ?e = None" by (simp add: example_defs)
  show ?thesis
    using v s k' no_credential_means_demo [OF v s k] by blast
qed

subsection \<open>C7: resolving the provider\<close>

text \<open>
  C7 (as the code has it). The provider of a request is its provider hint in lower case
  when the request has a hint that is not empty; otherwise (no hint, or the empty
  string, which \<open>or\<close> treats as absent) it is \<open>stability\<close> when a credential is
  configured and \<open>demo\<close> when none is.
\<close>

theorem provider_resolution:
  "(\<forall>h. GenerateRequest.provider req = Some h \<and> h \<noteq> [] \<longrightarrow>
        resolve_provider e req = lower (unicode_lower e) h) \<and>
   ((GenerateRequest.provider req = None \<or> GenerateRequest.provider req = Some []) \<and>
      truthy (STABILITY_API_KEY e) \<longrightarrow> resolve_provider e req = ascii ''stability'') \<and>
   ((GenerateRequest.provider req = None \<or> GenerateRequest.provider req = Some []) \<and>
      \<not> truthy (STABILITY_API_KEY e) \<longrightarrow> resolve_provider e req = ascii ''demo'')"
  by (auto simp: resolve_provider_cases)

text \<open>The three cases of the theorem, each at a request.\<close>

theorem provider_resolution_witness:
  "resolve_provider (example_env None Raises Raises)
     (fox_request\<lparr>GenerateRequest.provider := Some (ascii ''Stability'')\<rparr>)
     = lower no_ucd (ascii ''Stability'') \<and>
   lower no_ucd (ascii ''Stability'') = ascii ''stability'' \<and>
   resolve_provider (example_env (Some (ascii ''sk-test'')) Raises Raises) fox_request
     = ascii ''stability'' \<and>
   resolve_provider (example_env None Raises Raises) fox_request = ascii ''demo''"
proof -
  have h: "GenerateRequest.provider
             (fox_request\<lparr>GenerateRequest.provider := Some (ascii ''Stability'')\<rparr>)
           = Some (ascii ''Stability'') \<and> ascii ''Stability'' \<noteq> []"
    by (simp add: ascii_def)
  have n: "GenerateRequest.provider fox_request = None"
    by (simp add: fox_request_def)
  have k: "truthy (STABILITY_API_KEY (example_env (Some (ascii ''sk-test'')) Raises Raises))"
    by (simp add: example_defs)
  have k': "\<not> truthy (STABILITY_API_KEY (example_env None Raises Raises))"
    by (simp add: example_defs)
  have u: "unicode_lower (example_env None Raises Raises) = no_ucd"
    by (simp add: example_env_def)
  have l: "lower no_ucd (ascii ''Stability'') = ascii ''stability''"
    by (simp add: lower_def ascii_def ascii_lower_def)
  show ?thesis
    using h n k k' l
      provider_resolution [of "fox_request\<lparr>GenerateRequest.provider := Some (ascii ''Stability'')\<rparr>"
        "example_env None Raises Raises"]
      provider_resolution [of fox_request "example_env (Some (ascii ''sk-test'')) Raises Raises"]
      provider_resolution [of fox_request "example_env None Raises Raises"]
    unfolding u by blast
qed

text \<open>
  The claim as the specification states it fails: a request that carries the empty
  string as its hint is not resolved to that hint in lower case, which is the empty
  string, but to \<open>demo\<close>.
\<close>

theorem empty_hint_is_not_used:
  "GenerateRequest.provider (fox_request\<lparr>GenerateRequest.provider := Some []\<rparr>) = Some [] \<and>
   lower no_ucd [] = [] \<and>
   resolve_provider (example_env None Raises Raises)
     (fox_request\<lparr>GenerateRequest.provider := Some []\<rparr>) = ascii ''demo'' \<and>
   ascii ''demo'' \<noteq> []"
  by (simp add: example_defs)

subsection \<open>C8: the aspect ratio\<close>

text \<open>
  C8. Every request that \<open>generate_image\<close> posts to the live backend carries the
  aspect-ratio parameter \<open>1:1\<close>, whatever width and height were asked for: both branches
  of the test \<open>req.width == req.height\<close> store the same value.
\<close>

theorem aspect_ratio_always_square:
  "HttpPost rq \<in> set (fst (generate_image e req)) \<Longrightarrow>
   map_of (data rq) (ascii ''aspect_ratio'') = Some (ascii ''1:1'')"
  using generate_image_posts live_request_aspect by blast

text \<open>The theorem at a request for 512 by 768 pixels.\<close>

theorem aspect_ratio_always_square_witness:
  "HttpPost (live_request (Some (ascii ''sk-test'')) fox_request (ascii ''a red fox''))
     \<in> set (fst (generate_image
                   (example_env (Some (ascii ''sk-test'')) (Returns (example_response 200)) Raises)
                   fox_request)) \<and>
   width fox_request \<noteq> height fox_request \<and>
   map_of (data (live_request (Some (ascii ''sk-test'')) fox_request (ascii ''a red fox'')))
     (ascii ''aspect_ratio'') = Some (ascii ''1:1'')"
proof -
  have sent:
    "HttpPost (live_request (Some (ascii ''sk-test'')) fox_request (ascii ''a red fox''))
       \<in> set (fst (generate_image
                     (example_env (Some (ascii ''sk-test'')) (Returns (example_response 200)) Raises)
                     fox_request))"
    by (simp add: generate_image_def Let_def example_defs)
  show ?thesis
    using sent aspect_ratio_always_square [OF sent] by (simp add: fox_request_def)
qed

subsection \<open>C9: persistence\<close>

text \<open>
  C9. What the storage collaborator does never reaches the caller: if the environment is
  changed in nothing but the outcome of \<open>create_document\<close> (an identifier, or any
  exception) and the availability of the database, the call ends with the same response
  or the same error, and makes the same network calls.
\<close>

theorem persistence_never_changes_result:
  "snd (api_generate (e\<lparr>create_document := f, db_available := b\<rparr>) req)
     = snd (api_generate e req) \<and>
   filter is_network (fst (api_generate (e\<lparr>create_document := f, db_available := b\<rparr>) req))
     = filter is_network (fst (api_generate e req))"
  by (simp add: api_generate_def generate_image_def Let_def resolve_provider_db demo_mode_db
      split: outcome.splits prod.splits)

subsection \<open>C10: white space around the prompt\<close>

text \<open>
  C10. Two requests whose prompts are equal after trimming, with equal width and height,
  have the same seed and the same stock-image address, and whatever stock images
  \<open>generate_image\<close> fetches for them, in any two environments, are fetched from one and
  the same address.
\<close>

theorem trimmed_prompt_determines_demo_image:
  assumes "strip (prompt r1) = strip (prompt r2)"
    and "width r1 = width r2" and "height r1 = height r2"
  shows "demo_seed (strip (prompt r1)) = demo_seed (strip (prompt r2)) \<and>
    (\<forall>seed. demo_url seed r1 = demo_url seed r2) \<and>
    (\<forall>u1 u2. HttpGet u1 \<in> set (fst (generate_image e1 r1)) \<and>
             HttpGet u2 \<in> set (fst (generate_image e2 r2)) \<longrightarrow> u1 = u2)"
proof (intro conjI allI impI)
  show "demo_seed (strip (prompt r1)) = demo_seed (strip (prompt r2))"
    using assms(1) by simp
next
  fix seed
  show "demo_url seed r1 = demo_url seed r2"
    using assms(2,3) by (rule demo_url_dimensions)
next
  fix u1 u2
  assume "HttpGet u1 \<in> set (fst (generate_image e1 r1)) \<and>
          HttpGet u2 \<in> set (fst (generate_image e2 r2))"
  then obtain s1 s2 where
    "demo_seed (strip (prompt r1)) = Inr s1" "u1 = demo_url s1 r1"
    "demo_seed (strip (prompt r2)) = Inr s2" "u2 = demo_url s2 r2"
    using generate_image_gets by blast
  with assms show "u1 = u2"
    by (simp add: demo_url_def)
qed

text \<open>The theorem at the prompt \<open>a red fox\<close>, bare and with blanks around it.\<close>

theorem trimmed_prompt_determines_demo_image_witness:
  "strip (prompt fox_request) = strip (prompt (fox_request\<lparr>prompt := ascii ''  a red fox ''\<rparr>)) \<and>
   prompt fox_request \<noteq> prompt (fox_request\<lparr>prompt := ascii ''  a red fox ''\<rparr>) \<and>
   demo_seed (strip (prompt fox_request)) = Inr 78648756 \<and>
   demo_seed (strip (prompt (fox_request\<lparr>prompt := ascii ''  a red fox ''\<rparr>))) = Inr 78648756 \<and>
   HttpGet (ascii ''https://picsum.photos/seed/78648756/512/768'')
     \<in> set (fst (generate_image (example_env None Raises Raises) fox_request)) \<and>
   HttpGet (ascii ''https://picsum.photos/seed/78648756/512/768'')
     \<in> set (fst (generate_image (example_env None Raises Raises)
                   (fox_request\<lparr>prompt := ascii ''  a red fox ''\<rparr>)))"
proof -
  let ?r2 = "fox_request\<lparr>prompt := ascii ''  a red fox ''\<rparr>"
  have s1: "strip (prompt fox_request) = ascii ''a red fox''"
    by (simp add: example_defs)
  have s2: "strip (ascii ''  a red fox '') = ascii ''a red fox''"
    by (simp add: example_defs)
  have s: "strip (prompt fox_request) = strip (prompt ?r2)"
    using s1 s2 by simp
  have ne: "prompt fox_request \<noteq> prompt ?r2"
    by (simp add: example_defs)
  have w: "width fox_request = width ?r2" and h: "height fox_request = height ?r2"
    by simp_all
  have g1: "HttpGet (ascii ''https://picsum.photos/seed/78648756/512/768'')
     \<in> set (fst (generate_image (example_env None Raises Raises) fox_request))"
    using fox_events [of "prompt fox_request"] s1 by simp
  have g2: "HttpGet (ascii ''https://picsum.photos/seed/78648756/512/768'')
     \<in> set (fst (generate_image (example_env None Raises Raises) ?r2))"
    using fox_events [OF s2] by simp
  have seed1: "demo_seed (strip (prompt fox_request)) = Inr 78648756"
    using s1 demo_seed_a_red_fox by simp
  show ?thesis
    using s ne g1 g2 seed1 trimmed_prompt_determines_demo_image [OF s w h]
    by simp
qed

end
